theory Spec2Isabelle
  imports Complex_Main
begin

section \<open>The Frechet ChemNet Distance library (fcd/FCD.py)\<close>

subsection \<open>Floating-point values\<close>

text \<open>
  The entries of the numpy arrays are IEEE doubles. They are modelled by their value: a
  real number, an infinity or NaN, with the IEEE rules for the special values and exact
  arithmetic on the finite ones (rounding, overflow and the sign of zero are not
  modelled). A float literal of the source stands for the double it denotes, not for the
  decimal fraction it is written as. The claims proved below are about the control flow
  and about which arrays enter the result, which do not depend on rounding.
\<close>

datatype fl = Fin real | PInf | NInf | NaN

fun fl_neg :: "fl \<Rightarrow> fl" where
  "fl_neg (Fin a) = Fin (- a)"
| "fl_neg PInf = NInf"
| "fl_neg NInf = PInf"
| "fl_neg NaN = NaN"

fun fl_add :: "fl \<Rightarrow> fl \<Rightarrow> fl" where
  "fl_add NaN _ = NaN"
| "fl_add _ NaN = NaN"
| "fl_add PInf NInf = NaN"
| "fl_add NInf PInf = NaN"
| "fl_add PInf _ = PInf"
| "fl_add _ PInf = PInf"
| "fl_add NInf _ = NInf"
| "fl_add _ NInf = NInf"
| "fl_add (Fin a) (Fin b) = Fin (a + b)"

definition fl_sub :: "fl \<Rightarrow> fl \<Rightarrow> fl" where
  "fl_sub a b = fl_add a (fl_neg b)"

text \<open>The sign of a value: \<open>1\<close>, \<open>0\<close> or \<open>- 1\<close> (NaN is handled before it is asked).\<close>

fun fl_sgn :: "fl \<Rightarrow> int" where
  "fl_sgn (Fin a) = (if a < 0 then - 1 else if a = 0 then 0 else 1)"
| "fl_sgn PInf = 1"
| "fl_sgn NInf = - 1"
| "fl_sgn NaN = 0"

fun isfinite :: "fl \<Rightarrow> bool" where
  "isfinite (Fin a) = True"
| "isfinite _ = False"

fun fl_mul :: "fl \<Rightarrow> fl \<Rightarrow> fl" where
  "fl_mul NaN _ = NaN"
| "fl_mul _ NaN = NaN"
| "fl_mul (Fin a) (Fin b) = Fin (a * b)"
| "fl_mul a b =
     (if fl_sgn a * fl_sgn b = 0 then NaN
      else if fl_sgn a * fl_sgn b < 0 then NInf else PInf)"

fun fl_abs :: "fl \<Rightarrow> fl" where
  "fl_abs (Fin a) = Fin \<bar>a\<bar>"
| "fl_abs PInf = PInf"
| "fl_abs NInf = PInf"
| "fl_abs NaN = NaN"

text \<open>\<^verbatim>\<open>np.maximum\<close> of two values: NaN wins, else the larger.\<close>

fun fl_max :: "fl \<Rightarrow> fl \<Rightarrow> fl" where
  "fl_max NaN _ = NaN"
| "fl_max _ NaN = NaN"
| "fl_max PInf _ = PInf"
| "fl_max _ PInf = PInf"
| "fl_max NInf b = b"
| "fl_max a NInf = a"
| "fl_max (Fin a) (Fin b) = Fin (max a b)"

text \<open>
  \<^verbatim>\<open>np.max\<close> of a non-empty array (it raises on an empty one; the source reaches it only
  with a non-empty array, see \<open>real_part\<close>).
\<close>

fun np_max :: "fl list \<Rightarrow> fl" where
  "np_max [] = NInf"
| "np_max (x # xs) = foldl fl_max x xs"

definition fl_sum :: "fl list \<Rightarrow> fl" where
  "fl_sum xs = foldl fl_add (Fin 0) xs"

text \<open>
  \<^verbatim>\<open>np.isclose(x, 0, atol=atol)\<close> with the default \<^verbatim>\<open>rtol\<close>: the bound is
  \<^verbatim>\<open>atol + rtol * abs(0) = atol\<close>; an infinity or NaN is not close to 0.
\<close>

fun isclose_zero :: "real \<Rightarrow> fl \<Rightarrow> bool" where
  "isclose_zero atol (Fin a) = (\<bar>a\<bar> \<le> atol)"
| "isclose_zero atol _ = False"

subsection \<open>Exceptions\<close>

text \<open>
  Python exceptions are values of the type \<open>error\<close>; a function that may raise returns
  \<open>error + 'a\<close> with \<open>Inl\<close> for the exception. Text written by \<^verbatim>\<open>print\<close> is a list of
  lines returned next to the outcome. \<open>ImaginaryComponent m\<close> is the ValueError with the
  message \<^verbatim>\<open>"Imaginary component {m}"\<close>.
\<close>

datatype error =
    IndexError
  | UnboundLocalError
  | ZeroDivisionError
  | AssertionError string
  | ValueError string
  | ImaginaryComponent fl

subsection \<open>get_one_hot: the SMILES encoder\<close>

text \<open>
  The vocabulary, in the order of the source: 35 tokens, the wildcard \<open>X\<close> at 33 and the
  terminator \<open>.\<close> at 34. The eight ring-closure digits \<open>1\<close> to \<open>8\<close> are one-character
  tokens each.
\<close>

definition one_hot :: "string list" where
  "one_hot =
     [''C'', ''N'', ''O'', ''H'', ''F'', ''Cl'', ''P'', ''B'', ''Br'', ''S'', ''I'', ''Si'',
      ''#'', ''('', '')'', ''+'', ''-'']
     @ map (\<lambda>c. [c]) ''12345678''
     @ [''='', ''['', '']'', ''@'', ''c'', ''n'', ''o'', ''s'', ''X'', ''.'']"

text \<open>
  \<^verbatim>\<open>list.index\<close>: the position of the first occurrence. The source calls it only on
  members of the list (after \<^verbatim>\<open>sym in one_hot\<close>, or on the literals \<open>X\<close> and \<open>.\<close>).
\<close>

definition index :: "'a list \<Rightarrow> 'a \<Rightarrow> nat" where
  "index xs x = length (takeWhile (\<lambda>y. y \<noteq> x) xs)"

text \<open>The column set for a token: its own if it is in the vocabulary, else that of \<open>X\<close>.\<close>

definition column :: "string \<Rightarrow> nat" where
  "column symb = (if symb \<in> set one_hot then index one_hot symb else index one_hot ''X'')"

type_synonym tensor = "real list list"

text \<open>\<^verbatim>\<open>np.zeros((r, c))\<close>.\<close>

definition zeros :: "nat \<Rightarrow> nat \<Rightarrow> tensor" where
  "zeros r c = replicate r (replicate c 0)"

text \<open>\<^verbatim>\<open>vec[j, k] = 1\<close> for a row \<open>j\<close> in range (the callers test the range first).\<close>

definition set_cell :: "tensor \<Rightarrow> nat \<Rightarrow> nat \<Rightarrow> tensor" where
  "set_cell vec j k = vec[j := (vec ! j)[k := 1]]"

definition not_working :: "string \<Rightarrow> string" where
  "not_working smiles = ''smiles[i + 1] not working, value smiles '' @ smiles"

text \<open>
  The \<^verbatim>\<open>try\<close> block of the loop body. \<^verbatim>\<open>smiles[i + 1]\<close> raises IndexError when
  \<open>i + 1\<close> is not a position of the string; the bare \<^verbatim>\<open>except\<close> catches it, prints a
  line and leaves \<open>symb\<close> and \<open>i\<close> as they were. The local variable
  \<^verbatim>\<open>sym\<close> is \<open>symb\<close> here: \<open>None\<close> while it is unbound.
\<close>

definition lookahead ::
  "string \<Rightarrow> nat \<Rightarrow> string option \<Rightarrow> string list \<Rightarrow> string option \<times> nat \<times> string list" where
  "lookahead smiles i symb out =
     (if i + 1 < length smiles then
        (if smiles ! (i + 1) \<in> set ''ril''
         then (Some (take 2 (drop i smiles)), i + 2, out)
         else (Some [smiles ! i], i + 1, out))
      else (symb, i, out @ [not_working smiles]))"

text \<open>
  The \<^verbatim>\<open>while cont\<close> loop, one call per iteration. After the \<^verbatim>\<open>try\<close> block: reading an
  unbound \<open>symb\<close> raises UnboundLocalError; writing row \<open>j\<close> outside the tensor raises
  IndexError; \<^verbatim>\<open>smiles[i]\<close> outside the string raises IndexError; the stop condition is
  \<^verbatim>\<open>smiles[i] == "." or (j >= pad_len - 1 and pad_len > 0)\<close>.
\<close>

function scan ::
  "string \<Rightarrow> int \<Rightarrow> nat \<Rightarrow> nat \<Rightarrow> string option \<Rightarrow> string list \<Rightarrow> tensor
     \<Rightarrow> string list \<times> (error + tensor)" where
  "scan smiles pad_len i j symb out vec =
     (case lookahead smiles i symb out of (sym1, i1, out1) \<Rightarrow>
        (case sym1 of
           None \<Rightarrow> (out1, Inl UnboundLocalError)
         | Some s \<Rightarrow>
             if length vec \<le> j then (out1, Inl IndexError)
             else if length smiles \<le> i1 then (out1, Inl IndexError)
             else if smiles ! i1 = CHR ''.'' \<or> (pad_len - 1 \<le> int (j + 1) \<and> 0 < pad_len) then
               (if length vec \<le> j + 1 then (out1, Inl IndexError)
                else (out1, Inr (set_cell (set_cell vec j (column s)) (j + 1) (index one_hot ''.''))))
             else scan smiles pad_len i1 (j + 1) sym1 out1 (set_cell vec j (column s))))"
  by pat_completeness auto
termination
  by (relation "measure (\<lambda>(smiles, pad_len, i, j, symb, out, vec). length vec - j)")
     (auto simp: set_cell_def)

definition get_one_hot :: "string \<Rightarrow> int \<Rightarrow> string list \<times> (error + tensor)" where
  "get_one_hot smiles0 pad_len =
     (let smiles = smiles0 @ ''.'';
          vec = (if pad_len < 0 then zeros (length smiles) (length one_hot)
                 else zeros (nat pad_len) (length one_hot))
      in scan smiles pad_len 0 0 None [] vec)"

subsection \<open>predict_my_generator: the batch feeder\<close>

type_synonym batch = "tensor list"

text \<open>
  \<^verbatim>\<open>int(np.ceil(num_smls / batch_size))\<close> for a batch size other than zero, in integer
  arithmetic (\<open>num_batches_ceiling\<close> below shows it is that ceiling; the rounding of the
  float quotient of very large numbers is not modelled).
\<close>

definition num_batches :: "nat \<Rightarrow> int \<Rightarrow> int" where
  "num_batches num_smls batch_size = - ((- int num_smls) div batch_size)"

text \<open>\<^verbatim>\<open>idx_samples[j * batch_size : min((j + 1) * batch_size, num_smls)]\<close>.\<close>

definition batch_idx :: "nat \<Rightarrow> nat \<Rightarrow> nat \<Rightarrow> nat list" where
  "batch_idx num_smls batch_size j =
     [j * batch_size ..< min ((j + 1) * batch_size) num_smls]"

text \<open>
  The inner loop \<^verbatim>\<open>for i in range(0, len(idx)): x.append(get_one_hot(...))\<close> on the
  molecules of one batch: the first exception ends it, the printed lines accumulate.
\<close>

fun encode_all :: "string list \<Rightarrow> int \<Rightarrow> string list \<times> (error + batch)" where
  "encode_all [] nn = ([], Inr [])"
| "encode_all (s # ss) nn =
     (case get_one_hot s nn of
        (out, Inl e) \<Rightarrow> (out, Inl e)
      | (out, Inr v) \<Rightarrow>
          (case encode_all ss nn of
             (out', Inl e) \<Rightarrow> (out @ out', Inl e)
           | (out', Inr vs) \<Rightarrow> (out @ out', Inr (v # vs))))"

text \<open>\<^verbatim>\<open>np.asarray(x) / 35.0\<close>, the quotient taken exactly.\<close>

definition scaled :: "batch \<Rightarrow> batch" where
  "scaled x = map (map (map (\<lambda>v. v / 35))) x"

text \<open>
  One \<^verbatim>\<open>next\<close> of the generator. Its state \<open>j\<close> is the index of the next batch of the
  running pass over the list (0 before the first \<^verbatim>\<open>next\<close>). The answer is the printed
  lines, the batch yielded or the exception raised, and the new state. When the
  \<^verbatim>\<open>for\<close> loop is exhausted, \<^verbatim>\<open>while 1\<close> starts the next pass; with no batch in a pass
  (an empty list, a negative batch size) the generator loops without ever yielding, and
  the answer is \<open>None\<close>. Entering a pass evaluates \<^verbatim>\<open>num_smls / batch_size\<close>, which
  raises ZeroDivisionError for the batch size 0. The padded length is a natural number:
  the only call passes the default 350.
\<close>

partial_function (option) predict_my_generator ::
  "string list \<Rightarrow> int \<Rightarrow> nat \<Rightarrow> nat \<Rightarrow> ((string list \<times> (error + batch)) \<times> nat) option" where
  "predict_my_generator smiles_list batch_size pad_len j =
     (if j = 0 \<and> batch_size = 0 then Some (([], Inl ZeroDivisionError), j)
      else if int j < num_batches (length smiles_list) batch_size then
        (case encode_all
                (map (\<lambda>i. smiles_list ! i)
                   (batch_idx (length smiles_list) (nat batch_size) j))
                (int pad_len) of
           (out, Inl e) \<Rightarrow> Some ((out, Inl e), j)
         | (out, Inr x) \<Rightarrow> Some ((out, Inr (scaled x)), j + 1))
      else predict_my_generator smiles_list batch_size pad_len 0)"

subsection \<open>get_predictions: the embedding extractor\<close>

text \<open>
  Modelled from the spec: \<^verbatim>\<open>Model.predict_generator\<close> belongs to the keras library, which
  is not part of the repository. As the specification describes the extractor, it drives
  the batch feeder exactly \<open>steps\<close> times, one after the other, applies the embedding
  model to each batch and collects the outputs across those steps; an exception of the
  feeder ends the call. \<open>pull\<close> is the feeder's \<^verbatim>\<open>next\<close>, \<open>model\<close> the embedding model on
  one batch (the loaded network without its last two layers, another parameter).
  \<open>feed_steps\<close> gives the batches consumed, in order.
\<close>

fun feed_steps ::
  "(nat \<Rightarrow> ((string list \<times> (error + batch)) \<times> nat) option) \<Rightarrow> nat \<Rightarrow> nat
     \<Rightarrow> (string list \<times> (error + batch list)) option" where
  "feed_steps pull 0 j = Some ([], Inr [])"
| "feed_steps pull (Suc k) j =
     (case pull j of
        None \<Rightarrow> None
      | Some ((out, Inl e), j') \<Rightarrow> Some (out, Inl e)
      | Some ((out, Inr b), j') \<Rightarrow>
          (case feed_steps pull k j' of
             None \<Rightarrow> None
           | Some (out', Inl e) \<Rightarrow> Some (out @ out', Inl e)
           | Some (out', Inr bs) \<Rightarrow> Some (out @ out', Inr (b # bs))))"

definition predict_generator ::
  "(batch \<Rightarrow> 'e list) \<Rightarrow> (nat \<Rightarrow> ((string list \<times> (error + batch)) \<times> nat) option) \<Rightarrow> nat
     \<Rightarrow> (string list \<times> (error + 'e list)) option" where
  "predict_generator model pull steps =
     (case feed_steps pull steps 0 of
        None \<Rightarrow> None
      | Some (out, Inl e) \<Rightarrow> Some (out, Inl e)
      | Some (out, Inr bs) \<Rightarrow> Some (out, Inr (concat (map model bs))))"

text \<open>
  \<^verbatim>\<open>get_predictions\<close>: the feeder with the batch size 128 and the default padded length,
  bounded by \<^verbatim>\<open>steps = np.ceil(len(gen_mol) / 128)\<close>.
\<close>

definition get_predictions ::
  "(batch \<Rightarrow> 'e list) \<Rightarrow> string list \<Rightarrow> (string list \<times> (error + 'e list)) option" where
  "get_predictions model gen_mol =
     predict_generator model (predict_my_generator gen_mol 128 350)
       (nat (num_batches (length gen_mol) 128))"

subsection \<open>Arrays\<close>

type_synonym vector = "fl list"
type_synonym matrix = "fl list list"

text \<open>A complex entry is the pair of its real and imaginary part.\<close>

type_synonym cmatrix = "(fl \<times> fl) list list"

text \<open>
  What \<^verbatim>\<open>scipy.linalg.sqrtm\<close> returns: a float array or a complex array
  (\<^verbatim>\<open>np.iscomplexobj\<close> tells them apart).
\<close>

datatype ndarray = RealArray matrix | ComplexArray cmatrix

text \<open>
  The shape of a two-dimensional array given by its rows (all of one length; an array
  with no row has no column here).
\<close>

definition shape :: "'a list list \<Rightarrow> nat \<times> nat" where
  "shape m = (length m, if m = [] then 0 else length (hd m))"

definition column_of :: "'a list list \<Rightarrow> nat \<Rightarrow> 'a list" where
  "column_of m k = map (\<lambda>row. row ! k) m"

text \<open>
  \<^verbatim>\<open>a.dot(b)\<close> for two-dimensional arrays: ValueError unless the columns of \<open>a\<close> are as
  many as the rows of \<open>b\<close>.
\<close>

definition dot :: "matrix \<Rightarrow> matrix \<Rightarrow> error + matrix" where
  "dot a b =
     (if snd (shape a) \<noteq> fst (shape b) then Inl (ValueError ''shapes not aligned'')
      else Inr (map (\<lambda>row. map (\<lambda>k. fl_sum (map2 fl_mul row (column_of b k)))
                               [0 ..< snd (shape b)]) a))"

text \<open>\<^verbatim>\<open>d.dot(d)\<close> for a one-dimensional array.\<close>

definition vdot :: "vector \<Rightarrow> vector \<Rightarrow> fl" where
  "vdot a b = fl_sum (map2 fl_mul a b)"

text \<open>\<^verbatim>\<open>np.eye(n) * eps\<close>.\<close>

definition eye_times :: "nat \<Rightarrow> fl \<Rightarrow> matrix" where
  "eye_times n eps =
     map (\<lambda>r. map (\<lambda>c. fl_mul (Fin (if r = c then 1 else 0)) eps) [0 ..< n]) [0 ..< n]"

text \<open>
  \<^verbatim>\<open>a + b\<close> for arrays of one shape. The source adds the offset only after
  \<^verbatim>\<open>sigma1.dot(sigma2)\<close> has succeeded on two arrays of one shape, which are then
  square, as the offset is.
\<close>

definition madd :: "matrix \<Rightarrow> matrix \<Rightarrow> matrix" where
  "madd a b = map2 (map2 fl_add) a b"

text \<open>\<^verbatim>\<open>np.diagonal\<close> and \<^verbatim>\<open>np.trace\<close>.\<close>

definition diagonal :: "'a list list \<Rightarrow> 'a list" where
  "diagonal m = map (\<lambda>k. m ! k ! k) [0 ..< min (fst (shape m)) (snd (shape m))]"

definition trace :: "matrix \<Rightarrow> fl" where
  "trace m = fl_sum (diagonal m)"

text \<open>\<^verbatim>\<open>np.isfinite(covmean).all()\<close>.\<close>

fun all_finite :: "ndarray \<Rightarrow> bool" where
  "all_finite (RealArray m) = list_all (list_all isfinite) m"
| "all_finite (ComplexArray m) = list_all (list_all (\<lambda>z. isfinite (fst z) \<and> isfinite (snd z))) m"

subsection \<open>calculate_frechet_distance\<close>

text \<open>
  \<^verbatim>\<open>scipy.linalg.sqrtm\<close> is a library function outside the repository: it is a parameter
  of the model, called with its \<^verbatim>\<open>disp\<close> flag and the array, answering with the square
  root (the error estimate returned with \<^verbatim>\<open>disp=False\<close> is discarded by the source) or
  raising.
\<close>

type_synonym sqrtm_fun = "bool \<Rightarrow> matrix \<Rightarrow> error + ndarray"

text \<open>The warning of the source, with the value of \<open>eps\<close> it names.\<close>

datatype warning = SingularProduct fl

text \<open>
  The four arrays the caller passes. \<^verbatim>\<open>np.atleast_1d\<close> and \<^verbatim>\<open>np.atleast_2d\<close> return
  their argument itself when it is an array of enough dimensions, so the local names of
  the source denote the caller's objects. The mean is taken one-dimensional and the
  covariance two-dimensional, as the callers pass them. The function returns the arrays
  as they are after the call, the warnings emitted and the value or exception.
\<close>

record arrays =
  mu1 :: vector
  sigma1 :: matrix
  mu2 :: vector
  sigma2 :: matrix

text \<open>
  Lines 67 to 77: the square root of the product, computed again from the regularised
  product when an entry of the first one is not finite. The sums \<^verbatim>\<open>sigma1 + offset\<close>
  and \<^verbatim>\<open>sigma2 + offset\<close> are new arrays.
\<close>

definition covmean_of ::
  "sqrtm_fun \<Rightarrow> matrix \<Rightarrow> matrix \<Rightarrow> fl \<Rightarrow> warning list \<times> (error + ndarray)" where
  "covmean_of sqrtm s1 s2 eps =
     (case dot s1 s2 of
        Inl e \<Rightarrow> ([], Inl e)
      | Inr p \<Rightarrow>
         (case sqrtm False p of
            Inl e \<Rightarrow> ([], Inl e)
          | Inr covmean \<Rightarrow>
              if \<not> all_finite covmean then
                (let offset = eye_times (fst (shape s1)) eps in
                 case dot (madd s1 offset) (madd s2 offset) of
                   Inl e \<Rightarrow> ([SingularProduct eps], Inl e)
                 | Inr p' \<Rightarrow> ([SingularProduct eps], sqrtm True p'))
              else ([], Inr covmean)))"

text \<open>
  The literal \<^verbatim>\<open>1e-3\<close> of \<^verbatim>\<open>atol=1e-3\<close> is a double: the one nearest to a thousandth,
  \<open>4611686018427388 / 2 ^ 62\<close>, which is slightly more than \<open>1 / 1000\<close>. The entries
  compared with it are modelled by their exact value, so the bound is that value too.
\<close>

definition atol :: real where
  "atol = 1152921504606847 / 2 ^ 60"

text \<open>
  Lines 79 to 83: a complex square root is replaced by its real part when the imaginary
  parts of its diagonal are within \<open>atol\<close> of zero; otherwise ValueError with the message
  \<^verbatim>\<open>"Imaginary component {m}"\<close>, here \<open>ImaginaryComponent m\<close>.
\<close>

definition real_part :: "ndarray \<Rightarrow> error + matrix" where
  "real_part covmean =
     (case covmean of
        RealArray m \<Rightarrow> Inr m
      | ComplexArray c \<Rightarrow>
          if \<not> list_all (isclose_zero atol) (map snd (diagonal c))
          then Inl (ImaginaryComponent (np_max (map (\<lambda>z. fl_abs (snd z)) (concat c))))
          else Inr (map (map fst) c))"

definition mean_lengths :: string where
  "mean_lengths = ''Training and test mean vectors have different lengths''"

definition cov_dimensions :: string where
  "cov_dimensions = ''Training and test covariances have different dimensions''"

definition calculate_frechet_distance ::
  "sqrtm_fun \<Rightarrow> arrays \<Rightarrow> fl \<Rightarrow> arrays \<times> warning list \<times> (error + fl)" where
  "calculate_frechet_distance sqrtm a eps =
     (if length (mu1 a) \<noteq> length (mu2 a) then
        (a, [], Inl (AssertionError mean_lengths))
      else if shape (sigma1 a) \<noteq> shape (sigma2 a) then
        (a, [], Inl (AssertionError cov_dimensions))
      else
        (let diff = map2 fl_sub (mu1 a) (mu2 a) in
         case covmean_of sqrtm (sigma1 a) (sigma2 a) eps of
           (w, Inl e) \<Rightarrow> (a, w, Inl e)
         | (w, Inr covmean) \<Rightarrow>
             (case real_part covmean of
                Inl e \<Rightarrow> (a, w, Inl e)
              | Inr covmean' \<Rightarrow>
                  (a, w, Inr (fl_sub (fl_add (fl_add (vdot diff diff) (trace (sigma1 a)))
                                             (trace (sigma2 a)))
                                     (fl_mul (Fin 2) (trace covmean')))))))"

section \<open>Properties of the encoder\<close>

declare scan.simps [simp del]

subsection \<open>Reading inside the sentinel-extended string\<close>

lemma take2_drop: "i + 1 < length s \<Longrightarrow> take 2 (drop i s) = [s ! i, s ! (i + 1)]"
proof -
  assume a: "i + 1 < length s"
  then have "drop i s = s ! i # s ! Suc i # drop (Suc (Suc i)) s"
    by (simp add: Cons_nth_drop_Suc)
  then show ?thesis by (simp add: numeral_2_eq_2)
qed

lemma lookahead_in_range:
  "i + 1 < length s \<Longrightarrow>
   lookahead s i symb out =
     (if s ! (i + 1) \<in> set ''ril'' then (Some [s ! i, s ! (i + 1)], i + 2, out)
      else (Some [s ! i], i + 1, out))"
  by (simp add: lookahead_def take2_drop)

lemma nth_prefix_dot: "k \<le> length A \<Longrightarrow> (A @ ''.'' @ B) ! k = (A @ ''.'') ! k"
  by (simp add: nth_append)

lemma lookahead_prefix:
  assumes "i < length A"
  shows "lookahead (A @ ''.'' @ B) i symb out = lookahead (A @ ''.'') i symb out"
proof -
  have "i + 1 < length (A @ ''.'' @ B)" "i + 1 < length (A @ ''.'')"
    using assms by simp_all
  moreover have "(A @ ''.'' @ B) ! i = (A @ ''.'') ! i"
    "(A @ ''.'' @ B) ! (i + 1) = (A @ ''.'') ! (i + 1)"
    using assms by (simp_all add: nth_append)
  ultimately show ?thesis by (simp only: lookahead_in_range)
qed

text \<open>
  From a position inside the input the \<^verbatim>\<open>try\<close> block never fails, binds \<open>sym\<close>, moves
  forward and stays on or before the sentinel: a pair is consumed only when its second
  character is one of \<open>r\<close>, \<open>i\<close>, \<open>l\<close>, which the sentinel is not.
\<close>

lemma lookahead_next_le:
  assumes "i < length A" "lookahead (A @ ''.'') i symb out = (sym1, i1, out1)"
  shows "i1 \<le> length A \<and> i < i1 \<and> out1 = out \<and> sym1 \<noteq> None"
proof -
  have r: "i + 1 < length (A @ ''.'')" using assms by simp
  show ?thesis
  proof (cases "(A @ ''.'') ! (i + 1) \<in> set ''ril''")
    case True
    then have "i + 1 \<noteq> length A" by (auto simp: nth_append)
    then show ?thesis using assms True by (auto simp: lookahead_in_range[OF r])
  next
    case False
    then show ?thesis using assms by (auto simp: lookahead_in_range[OF r])
  qed
qed

lemma set_cell_length: "length (set_cell vec j k) = length vec"
  by (simp add: set_cell_def)

lemma zeros_length: "length (zeros r c) = r"
  by (simp add: zeros_def)

subsection \<open>The scan of a non-empty string\<close>

text \<open>
  What follows the first dot reached by the scan is never read: from a position inside
  \<open>A\<close>, the loop on \<open>A.B\<close> and the loop on \<open>A.\<close> are the same computation.
\<close>

lemma scan_prefix:
  "i < length A \<Longrightarrow>
   scan (A @ ''.'' @ B) pad_len i j symb out vec = scan (A @ ''.'') pad_len i j symb out vec"
proof (induction "A @ ''.''" pad_len i j symb out vec rule: scan.induct)
  case (1 pad_len i j symb out vec)
  obtain sym1 i1 out1 where la: "lookahead (A @ ''.'') i symb out = (sym1, i1, out1)"
    by (cases "lookahead (A @ ''.'') i symb out") auto
  from lookahead_next_le[OF "1.prems" la] obtain s where
    le: "i1 \<le> length A" and s: "sym1 = Some s" by auto
  have nth: "(A @ ''.'' @ B) ! i1 = (A @ ''.'') ! i1" using le by (rule nth_prefix_dot)
  have lens: "\<not> length (A @ ''.'' @ B) \<le> i1" "\<not> length (A @ ''.'') \<le> i1"
    using le by simp_all
  show ?case
  proof (cases "length vec \<le> j \<or> (A @ ''.'') ! i1 = CHR ''.''
                 \<or> (pad_len - 1 \<le> int (j + 1) \<and> 0 < pad_len)")
    case True
    then show ?thesis
      by (subst scan.simps, subst (2) scan.simps)
         (auto simp: lookahead_prefix[OF "1.prems"] la s nth lens
               simp del: append.simps length_append)
  next
    case False
    then have "i1 \<noteq> length A" by (auto simp: nth_append)
    then have lt: "i1 < length A" using le by simp
    have IH: "scan (A @ ''.'' @ B) pad_len i1 (j + 1) sym1 out1 (set_cell vec j (column s))
            = scan (A @ ''.'') pad_len i1 (j + 1) sym1 out1 (set_cell vec j (column s))"
      using False lens lt by (intro "1.hyps"[OF la[symmetric] refl s]) auto
    show ?thesis using False IH
      by (subst scan.simps, subst (2) scan.simps)
         (auto simp: lookahead_prefix[OF "1.prems"] la s nth lens
               simp del: append.simps length_append)
  qed
qed

text \<open>
  From a position inside a non-empty input the loop returns a tensor, prints nothing and
  keeps the number of rows, both without padding (then \<open>j \<le> i\<close> keeps the row in range)
  and with \<open>pad_len \<ge> 2\<close> (then the forced stop keeps it in range).
\<close>

lemma scan_returns:
  "i < length A \<Longrightarrow> j < length vec \<Longrightarrow>
   (pad_len < 0 \<and> length vec = length A + 1 \<and> j \<le> i) \<or>
   (2 \<le> pad_len \<and> length vec = nat pad_len \<and> j + 1 < length vec) \<Longrightarrow>
   \<exists>vec'. scan (A @ ''.'') pad_len i j symb out vec = (out, Inr vec')
           \<and> length vec' = length vec"
proof (induction "A @ ''.''" pad_len i j symb out vec rule: scan.induct)
  case (1 pad_len i j symb out vec)
  obtain sym1 i1 out1 where la: "lookahead (A @ ''.'') i symb out = (sym1, i1, out1)"
    by (cases "lookahead (A @ ''.'') i symb out") auto
  from lookahead_next_le[OF "1.prems"(1) la] obtain s where
    le: "i1 \<le> length A" and lt: "i < i1" and o: "out1 = out" and s: "sym1 = Some s"
    by auto
  have lens: "\<not> length (A @ ''.'') \<le> i1" using le by simp
  have j1: "j + 1 < length vec" using "1.prems" le lt by auto
  show ?case
  proof (cases "(A @ ''.'') ! i1 = CHR ''.'' \<or> (pad_len - 1 \<le> int (j + 1) \<and> 0 < pad_len)")
    case True
    then show ?thesis using "1.prems"(2) j1
      by (subst scan.simps)
         (auto simp: la s o lens set_cell_length simp del: append.simps length_append)
  next
    case False
    then have "i1 \<noteq> length A" by (auto simp: nth_append)
    then have lt': "i1 < length A" using le by simp
    have inv:
      "(pad_len < 0 \<and> length (set_cell vec j (column s)) = length A + 1 \<and> j + 1 \<le> i1) \<or>
       (2 \<le> pad_len \<and> length (set_cell vec j (column s)) = nat pad_len
          \<and> j + 1 + 1 < length (set_cell vec j (column s)))"
      using "1.prems"(3) False lt by (auto simp: set_cell_length)
    have "\<exists>vec'. scan (A @ ''.'') pad_len i1 (j + 1) sym1 out1 (set_cell vec j (column s))
                   = (out1, Inr vec')
             \<and> length vec' = length (set_cell vec j (column s))"
      using False lens "1.prems"(2) j1 lt' inv
      by (intro "1.hyps"[OF la[symmetric] refl s]) (auto simp: set_cell_length)
    then show ?thesis using False "1.prems"(2)
      by (subst scan.simps)
         (auto simp: la s o lens set_cell_length simp del: append.simps length_append)
  qed
qed

lemma get_one_hot_unpadded:
  assumes "smiles \<noteq> []" "pad_len < 0"
  shows "\<exists>vec. get_one_hot smiles pad_len = ([], Inr vec) \<and> length vec = length smiles + 1"
proof -
  have "\<exists>vec'. scan (smiles @ ''.'') pad_len 0 0 None []
                  (zeros (length smiles + 1) (length one_hot)) = ([], Inr vec')
           \<and> length vec' = length (zeros (length smiles + 1) (length one_hot))"
    using assms by (intro scan_returns) (auto simp: zeros_length)
  then show ?thesis using assms by (simp add: get_one_hot_def zeros_length)
qed

lemma get_one_hot_padded:
  assumes "smiles \<noteq> []" "2 \<le> pad_len"
  shows "\<exists>vec. get_one_hot smiles pad_len = ([], Inr vec) \<and> length vec = nat pad_len"
proof -
  have "\<exists>vec'. scan (smiles @ ''.'') pad_len 0 0 None []
                  (zeros (nat pad_len) (length one_hot)) = ([], Inr vec')
           \<and> length vec' = length (zeros (nat pad_len) (length one_hot))"
    using assms by (intro scan_returns) (auto simp: zeros_length)
  then show ?thesis using assms by (simp add: get_one_hot_def zeros_length)
qed

subsection \<open>The empty string and a leading dot\<close>

text \<open>
  Claim C2 (for every string and every \<open>padded_length \<ge> 2\<close> the encoder returns a tensor
  of \<open>padded_length\<close> rows with exactly one terminator row, reads nothing past the
  sentinel-extended string and never raises, the empty string included) fails on the
  empty string: the first \<^verbatim>\<open>smiles[i + 1]\<close> reads position 1 of the one-character
  string \<open>.\<close>; the \<^verbatim>\<open>except\<close> clause prints its line and goes on with \<open>sym\<close> unbound,
  and \<^verbatim>\<open>sym in one_hot\<close> raises UnboundLocalError. Here at 350, the padded length the
  batch feeder uses.
\<close>

theorem get_one_hot_empty_padded:
  "get_one_hot '''' 350 = ([not_working ''.''], Inl UnboundLocalError)"
  by (simp add: get_one_hot_def scan.simps lookahead_def)

text \<open>
  A dot in first position is encoded as an ordinary token before the stop condition is
  first tested, so the tensor has two rows that mark the terminator column 34.
\<close>

lemma get_one_hot_leading_dot:
  "get_one_hot ''.'' 3 =
     ([], Inr [(replicate 35 0)[34 := 1], (replicate 35 0)[34 := 1], replicate 35 0])"
  by code_simp

text \<open>
  Claim C8 (for every string, with a negative \<open>padded_length\<close> the encoder returns a
  tensor of input length plus one rows and never takes the forced stop) fails on the
  empty string for the same reason: no tensor is returned. For every other string it
  holds, see \<open>get_one_hot_unpadded\<close>.
\<close>

theorem get_one_hot_empty_unpadded:
  "get_one_hot '''' (- 1) = ([not_working ''.''], Inl UnboundLocalError)"
  by (simp add: get_one_hot_def scan.simps lookahead_def)

subsection \<open>Two-character tokens\<close>

text \<open>
  Claim C3 as stated (two characters are consumed exactly when the pair is a two-letter
  atom of the vocabulary) is false: in \<open>Ci\<close> the pair is consumed as one token although
  it is not in the vocabulary.
\<close>

theorem lookahead_pair_counterexample:
  "fst (snd (lookahead ''Ci.'' 0 None [])) = 0 + 2 \<and> ''Ci'' \<notin> set one_hot"
  by (simp add: lookahead_def one_hot_def)

text \<open>
  Claim C3, amended: at a scan position \<open>i\<close> whose successor is inside the
  sentinel-extended string, the tokenizer consumes two characters as a single token
  exactly when the character at \<open>i + 1\<close> is \<open>r\<close>, \<open>i\<close> or \<open>l\<close>, whatever the character at
  \<open>i\<close>, and one character otherwise. Every two-letter token of the vocabulary has such a
  second character, so it is consumed whole; a token that is not in the vocabulary sets
  the wildcard column 33.
\<close>

theorem lookahead_consumes:
  "(i + 1 < length smiles \<longrightarrow>
      lookahead smiles i symb out =
        (if smiles ! (i + 1) \<in> {CHR ''r'', CHR ''i'', CHR ''l''}
         then (Some [smiles ! i, smiles ! (i + 1)], i + 2, out)
         else (Some [smiles ! i], i + 1, out))) \<and>
   (\<forall>t \<in> set one_hot. length t = 2 \<longrightarrow> t ! 1 \<in> {CHR ''r'', CHR ''i'', CHR ''l''}) \<and>
   (t \<notin> set one_hot \<longrightarrow> column t = 33)"
  by (auto simp: lookahead_in_range column_def one_hot_def index_def)

theorem lookahead_consumes_witness:
  "lookahead ''Ci.'' 0 None [] = (Some ''Ci'', 2, []) \<and> column ''Ci'' = 33
   \<and> lookahead ''CO.'' 0 None [] = (Some ''C'', 1, [])
   \<and> ''Cl'' ! 1 \<in> {CHR ''r'', CHR ''i'', CHR ''l''}"
  using lookahead_consumes [of 0 "''Ci.''" None "[]" "''Ci''"]
        lookahead_consumes [of 0 "''CO.''" None "[]" "''Ci''"]
  by (simp add: one_hot_def)

subsection \<open>What follows the first dot\<close>

text \<open>
  Claim C10 as stated (for all strings \<open>A\<close>, \<open>B\<close> and every \<open>L\<close>, the encoding of \<open>A.B\<close>
  is the encoding of \<open>A\<close>) is false without padding: the tensor then has one row per
  character of the whole input, so the two tensors differ in their number of rows.
\<close>

theorem get_one_hot_after_dot_counterexample:
  "get_one_hot (''C'' @ ''.'' @ ''C'') (- 1) \<noteq> get_one_hot ''C'' (- 1)"
  by (simp add: get_one_hot_def scan.simps lookahead_def zeros_def set_cell_def)

text \<open>
  Claim C10, amended: for every non-empty string \<open>A\<close>, every string \<open>B\<close> and every
  padded length \<open>L \<ge> 0\<close>, encoding \<open>A.B\<close> has the same outcome as encoding \<open>A\<close>: the same
  printed lines and the same tensor, or the same exception where \<open>L < 2\<close>.
\<close>

theorem get_one_hot_after_dot:
  assumes "A \<noteq> []" "0 \<le> L"
  shows "get_one_hot (A @ ''.'' @ B) L = get_one_hot A L"
proof -
  have "scan (A @ ''.'' @ (B @ ''.'')) L 0 0 None [] (zeros (nat L) (length one_hot))
      = scan (A @ ''.'') L 0 0 None [] (zeros (nat L) (length one_hot))"
    using assms(1) by (intro scan_prefix) simp
  then show ?thesis using assms(2) by (simp add: get_one_hot_def)
qed

theorem get_one_hot_after_dot_witness:
  "''C'' \<noteq> [] \<and> (0::int) \<le> 5
   \<and> get_one_hot (''C'' @ ''.'' @ ''C'') 5 = get_one_hot ''C'' 5"
  using get_one_hot_after_dot [of "''C''" 5 "''C''"] by simp

section \<open>Properties of the distance\<close>

subsection \<open>The maximum reported\<close>

lemma foldl_fl_max_Fin: "foldl fl_max (Fin a) (map Fin rs) = Fin (foldl max a rs)"
  by (induction rs arbitrary: a) simp_all

text \<open>On finite values \<open>np_max\<close> is the greatest of them.\<close>

lemma np_max_finite: "np_max (map Fin (r # rs)) = Fin (Max (set (r # rs)))"
proof -
  have "foldl max r rs = fold max rs r"
    by (simp add: foldl_conv_fold max.commute)
  then show ?thesis
    by (simp add: foldl_fl_max_Fin Max.set_eq_fold del: set_simps)
qed

lemma all_close_iff:
  "list_all (isclose_zero t) xs \<longleftrightarrow> (\<forall>k < length xs. \<exists>r. xs ! k = Fin r \<and> \<bar>r\<bar> \<le> t)"
proof
  assume l: "list_all (isclose_zero t) xs"
  show "\<forall>k < length xs. \<exists>r. xs ! k = Fin r \<and> \<bar>r\<bar> \<le> t"
  proof (intro allI impI)
    fix k assume "k < length xs"
    with l have "isclose_zero t (xs ! k)" by (simp add: list_all_length)
    then show "\<exists>r. xs ! k = Fin r \<and> \<bar>r\<bar> \<le> t" by (cases "xs ! k") auto
  qed
next
  assume "\<forall>k < length xs. \<exists>r. xs ! k = Fin r \<and> \<bar>r\<bar> \<le> t"
  then show "list_all (isclose_zero t) xs" by (auto simp: list_all_length)
qed

subsection \<open>Shape preconditions\<close>

text \<open>
  Claim C6: when the shapes of the two mean vectors differ, or else the shapes of the
  two covariance matrices differ, the function raises before any numerical work: the
  outcome is the AssertionError of the failed precondition, whose message names it (the
  two messages differ), no warning is emitted, and this is so for every \<open>sqrtm\<close> and for
  every content of the arrays, also one on which the later steps would raise.
\<close>

theorem shape_mismatch_raises:
  "(length (mu1 a) \<noteq> length (mu2 a) \<longrightarrow>
      calculate_frechet_distance sqrtm a eps = (a, [], Inl (AssertionError mean_lengths))) \<and>
   (length (mu1 a) = length (mu2 a) \<and> shape (sigma1 a) \<noteq> shape (sigma2 a) \<longrightarrow>
      calculate_frechet_distance sqrtm a eps = (a, [], Inl (AssertionError cov_dimensions))) \<and>
   mean_lengths \<noteq> cov_dimensions"
  by (simp add: calculate_frechet_distance_def mean_lengths_def cov_dimensions_def)

theorem shape_mismatch_raises_witness:
  "calculate_frechet_distance (\<lambda>d m. Inl (ValueError ''sqrtm''))
     \<lparr>mu1 = [Fin 0, Fin 0, Fin 0], sigma1 = [[Fin 1]],
      mu2 = [Fin 0, Fin 0, Fin 0, Fin 0], sigma2 = [[Fin 1]]\<rparr> (Fin (1 / 1000000))
   = (\<lparr>mu1 = [Fin 0, Fin 0, Fin 0], sigma1 = [[Fin 1]],
       mu2 = [Fin 0, Fin 0, Fin 0, Fin 0], sigma2 = [[Fin 1]]\<rparr>, [],
      Inl (AssertionError mean_lengths))
   \<and> calculate_frechet_distance (\<lambda>d m. Inl (ValueError ''sqrtm''))
     \<lparr>mu1 = [Fin 0], sigma1 = [[Fin 1]],
      mu2 = [Fin 0], sigma2 = [[Fin 1, Fin 0], [Fin 0, Fin 1]]\<rparr> (Fin (1 / 1000000))
   = (\<lparr>mu1 = [Fin 0], sigma1 = [[Fin 1]],
       mu2 = [Fin 0], sigma2 = [[Fin 1, Fin 0], [Fin 0, Fin 1]]\<rparr>, [],
      Inl (AssertionError cov_dimensions))"
  using shape_mismatch_raises [of
          "\<lparr>mu1 = [Fin 0, Fin 0, Fin 0], sigma1 = [[Fin 1]],
            mu2 = [Fin 0, Fin 0, Fin 0, Fin 0], sigma2 = [[Fin 1]]\<rparr>"
          "\<lambda>d m. Inl (ValueError ''sqrtm'')" "Fin (1 / 1000000)"]
        shape_mismatch_raises [of
          "\<lparr>mu1 = [Fin 0], sigma1 = [[Fin 1]],
            mu2 = [Fin 0], sigma2 = [[Fin 1, Fin 0], [Fin 0, Fin 1]]\<rparr>"
          "\<lambda>d m. Inl (ValueError ''sqrtm'')" "Fin (1 / 1000000)"]
  by (simp add: shape_def)

subsection \<open>A complex square root\<close>

text \<open>The bound of the tolerance test is the double written \<open>1e-3\<close>, above a thousandth.\<close>

lemma atol_double: "atol = 4611686018427388 / 2 ^ 62 \<and> 1 / 1000 < atol"
  by (simp add: atol_def)

text \<open>
  Claim C5: whenever the square root \<open>covmean\<close> that leaves lines 67 to 77 is a complex
  array \<open>c\<close>: if the imaginary part of every diagonal entry is a number within the
  absolute tolerance \<open>1e-3\<close> of zero (\<open>isclose_zero atol\<close>, spelled out in
  \<open>all_close_iff\<close>, with \<open>atol\<close> the double that \<open>1e-3\<close> denotes), the imaginary parts
  are dropped and the result is computed with the trace of the real parts; otherwise the
  function raises the ValueError that reports \<open>np_max\<close> of the absolute imaginary parts
  of all entries of \<open>c\<close> (their maximum, \<open>np_max_finite\<close>).
\<close>

theorem complex_covmean:
  assumes "length (mu1 a) = length (mu2 a)" "shape (sigma1 a) = shape (sigma2 a)"
    and "covmean_of sqrtm (sigma1 a) (sigma2 a) eps = (w, Inr (ComplexArray c))"
  shows "calculate_frechet_distance sqrtm a eps =
     (a, w,
      if \<forall>z \<in> set (diagonal c). isclose_zero atol (snd z)
      then Inr (fl_sub (fl_add (fl_add (vdot (map2 fl_sub (mu1 a) (mu2 a))
                                             (map2 fl_sub (mu1 a) (mu2 a)))
                                       (trace (sigma1 a)))
                               (trace (sigma2 a)))
                       (fl_mul (Fin 2) (trace (map (map fst) c))))
      else Inl (ImaginaryComponent (np_max (map (\<lambda>z. fl_abs (snd z)) (concat c)))))"
  using assms
  by (simp add: calculate_frechet_distance_def real_part_def Let_def list_all_iff)

text \<open>
  Two instances on 1 by 1 arrays, with \<open>eps\<close> the double \<open>1e-6\<close>. An imaginary part that
  is the double \<open>1e-3\<close> itself is within the tolerance: the real part 4 is kept and the
  result is \<open>(3 - 1)\<^sup>2 + 2 + 8 - 2 * 4\<close>. The next double above it is not, and is reported.
\<close>

theorem complex_covmean_witness:
  "calculate_frechet_distance
     (\<lambda>d m. Inr (ComplexArray [[(Fin 4, Fin (4611686018427388 / 2 ^ 62))]]))
     \<lparr>mu1 = [Fin 3], sigma1 = [[Fin 2]], mu2 = [Fin 1], sigma2 = [[Fin 8]]\<rparr>
     (Fin (4722366482869645 / 2 ^ 72))
   = (\<lparr>mu1 = [Fin 3], sigma1 = [[Fin 2]], mu2 = [Fin 1], sigma2 = [[Fin 8]]\<rparr>, [],
      Inr (Fin 6))
   \<and> calculate_frechet_distance
     (\<lambda>d m. Inr (ComplexArray [[(Fin 4, Fin (4611686018427389 / 2 ^ 62))]]))
     \<lparr>mu1 = [Fin 3], sigma1 = [[Fin 2]], mu2 = [Fin 1], sigma2 = [[Fin 8]]\<rparr>
     (Fin (4722366482869645 / 2 ^ 72))
   = (\<lparr>mu1 = [Fin 3], sigma1 = [[Fin 2]], mu2 = [Fin 1], sigma2 = [[Fin 8]]\<rparr>, [],
      Inl (ImaginaryComponent (Fin (4611686018427389 / 2 ^ 62))))"
  using complex_covmean [of
          "\<lparr>mu1 = [Fin 3], sigma1 = [[Fin 2]], mu2 = [Fin 1], sigma2 = [[Fin 8]]\<rparr>"
          "\<lambda>d m. Inr (ComplexArray [[(Fin 4, Fin (4611686018427388 / 2 ^ 62))]])"
          "Fin (4722366482869645 / 2 ^ 72)" "[]"
          "[[(Fin 4, Fin (4611686018427388 / 2 ^ 62))]]"]
        complex_covmean [of
          "\<lparr>mu1 = [Fin 3], sigma1 = [[Fin 2]], mu2 = [Fin 1], sigma2 = [[Fin 8]]\<rparr>"
          "\<lambda>d m. Inr (ComplexArray [[(Fin 4, Fin (4611686018427389 / 2 ^ 62))]])"
          "Fin (4722366482869645 / 2 ^ 72)" "[]"
          "[[(Fin 4, Fin (4611686018427389 / 2 ^ 62))]]"]
  by (simp add: covmean_of_def dot_def shape_def diagonal_def trace_def vdot_def
        fl_sum_def fl_sub_def atol_def)

subsection \<open>The regularised product and the input arrays\<close>

text \<open>
  Claim C9: the function never changes the arrays it is given, and when the
  regularisation branch is taken (an entry of the first square root is not finite)
  \<open>eps\<close> enters only the product whose square root is recomputed: the result is
  \<open>diff.diff + trace sigma1 + trace sigma2 - 2 * trace covmean\<close> with the traces of the
  caller's matrices as they were passed, and \<open>covmean\<close> the real part of the square root
  of \<open>(sigma1 + offset).(sigma2 + offset)\<close>.
\<close>

theorem inputs_not_mutated:
  "fst (calculate_frechet_distance sqrtm a eps) = a \<and>
   (length (mu1 a) = length (mu2 a) \<and> shape (sigma1 a) = shape (sigma2 a) \<and>
    dot (sigma1 a) (sigma2 a) = Inr p \<and> sqrtm False p = Inr c0 \<and> \<not> all_finite c0 \<and>
    dot (madd (sigma1 a) (eye_times (fst (shape (sigma1 a))) eps))
        (madd (sigma2 a) (eye_times (fst (shape (sigma1 a))) eps)) = Inr p' \<and>
    sqrtm True p' = Inr c1 \<and> real_part c1 = Inr m \<longrightarrow>
    calculate_frechet_distance sqrtm a eps =
      (a, [SingularProduct eps],
       Inr (fl_sub (fl_add (fl_add (vdot (map2 fl_sub (mu1 a) (mu2 a))
                                         (map2 fl_sub (mu1 a) (mu2 a)))
                                   (trace (sigma1 a)))
                           (trace (sigma2 a)))
                   (fl_mul (Fin 2) (trace m)))))"
proof
  show "fst (calculate_frechet_distance sqrtm a eps) = a"
    by (auto simp: calculate_frechet_distance_def Let_def split: prod.splits sum.splits)
next
  show "length (mu1 a) = length (mu2 a) \<and> shape (sigma1 a) = shape (sigma2 a) \<and>
    dot (sigma1 a) (sigma2 a) = Inr p \<and> sqrtm False p = Inr c0 \<and> \<not> all_finite c0 \<and>
    dot (madd (sigma1 a) (eye_times (fst (shape (sigma1 a))) eps))
        (madd (sigma2 a) (eye_times (fst (shape (sigma1 a))) eps)) = Inr p' \<and>
    sqrtm True p' = Inr c1 \<and> real_part c1 = Inr m \<longrightarrow>
    calculate_frechet_distance sqrtm a eps =
      (a, [SingularProduct eps],
       Inr (fl_sub (fl_add (fl_add (vdot (map2 fl_sub (mu1 a) (mu2 a))
                                         (map2 fl_sub (mu1 a) (mu2 a)))
                                   (trace (sigma1 a)))
                           (trace (sigma2 a)))
                   (fl_mul (Fin 2) (trace m))))"
    by (clarsimp simp: calculate_frechet_distance_def covmean_of_def Let_def)
qed

text \<open>
  An instance: both covariances are the 1 by 1 matrix \<open>2\<close>, \<open>eps\<close> is \<open>1\<close>, the first
  square root comes back as NaN and the second as \<open>3\<close>, the square root of
  \<open>(2 + 1) * (2 + 1)\<close>. The result is \<open>2 + 2 - 2 * 3\<close>: the traces are those of the
  matrices passed, not of the regularised ones.
\<close>

theorem inputs_not_mutated_witness:
  "calculate_frechet_distance
     (\<lambda>d m. if d then Inr (RealArray [[Fin 3]]) else Inr (RealArray [[NaN]]))
     \<lparr>mu1 = [Fin 0], sigma1 = [[Fin 2]], mu2 = [Fin 0], sigma2 = [[Fin 2]]\<rparr> (Fin 1)
   = (\<lparr>mu1 = [Fin 0], sigma1 = [[Fin 2]], mu2 = [Fin 0], sigma2 = [[Fin 2]]\<rparr>,
      [SingularProduct (Fin 1)], Inr (Fin (- 2)))"
  using inputs_not_mutated [of
          "\<lambda>d m. if d then Inr (RealArray [[Fin 3]]) else Inr (RealArray [[NaN]])"
          "\<lparr>mu1 = [Fin 0], sigma1 = [[Fin 2]], mu2 = [Fin 0], sigma2 = [[Fin 2]]\<rparr>"
          "Fin 1" "[[Fin 4]]" "RealArray [[NaN]]" "[[Fin 9]]" "RealArray [[Fin 3]]"
          "[[Fin 3]]"]
  by (simp add: dot_def shape_def diagonal_def trace_def vdot_def fl_sum_def fl_sub_def
        madd_def eye_times_def column_of_def real_part_def)

section \<open>Properties of the feeder and the extractor\<close>

text \<open>The empty string makes the encoder raise, whatever the padded length.\<close>

lemma get_one_hot_empty:
  "get_one_hot '''' pad_len = ([not_working ''.''], Inl UnboundLocalError)"
  by (simp add: get_one_hot_def scan.simps lookahead_def)

lemma num_batches_ceiling:
  "num_batches num_smls batch_size = \<lceil>real num_smls / real_of_int batch_size\<rceil>"
proof -
  have "- (real num_smls / real_of_int batch_size)
        = real_of_int (- int num_smls) / real_of_int batch_size"
    by simp
  then have "\<lfloor>- (real num_smls / real_of_int batch_size)\<rfloor>
             = (- int num_smls) div batch_size"
    by (simp only: floor_divide_of_int_eq)
  then show ?thesis by (simp add: num_batches_def ceiling_def)
qed

subsection \<open>The batches of one pass\<close>

lemma upt_split: "a \<le> m \<Longrightarrow> [0 ..< a] @ [a ..< m] = [0 ..< m]"
  using upt_add_eq_append[of 0 a "m - a"] by simp

lemma batch_idx_concat:
  "concat (map (batch_idx n b) [0 ..< k]) = [0 ..< min (k * b) n]"
proof (induction k)
  case 0
  then show ?case by simp
next
  case (Suc k)
  have "[0 ..< min (k * b) n] @ [k * b ..< min ((k + 1) * b) n] = [0 ..< min ((k + 1) * b) n]"
  proof (cases "k * b \<le> n")
    case True
    then have "[0 ..< k * b] @ [k * b ..< min ((k + 1) * b) n] = [0 ..< min ((k + 1) * b) n]"
      by (intro upt_split) simp
    then show ?thesis using True by (simp add: min_def)
  next
    case False
    then show ?thesis by (simp add: min_def)
  qed
  then show ?case using Suc by (simp add: batch_idx_def)
qed

lemma batch_idx_in_range: "i \<in> set (batch_idx n b j) \<Longrightarrow> i < n"
  by (simp add: batch_idx_def)

text \<open>With a positive batch size the passes have enough batches to cover the list.\<close>

lemma num_batches_covers:
  assumes "0 < b"
  shows "n \<le> nat (num_batches n (int b)) * b"
proof -
  have eq: "- int n = (- int n) div int b * int b + (- int n) mod int b"
    by (simp only: div_mult_mod_eq)
  have "0 \<le> (- int n) mod int b" using assms by simp
  with eq have le: "(- int n) div int b * int b \<le> - int n" by linarith
  then have 1: "int n \<le> num_batches n (int b) * int b"
    by (simp add: num_batches_def)
  have "(- int n) div int b \<le> 0"
    using assms by (intro div_nonpos_pos_le0) simp_all
  then have "0 \<le> num_batches n (int b)" by (simp add: num_batches_def)
  with 1 have "int n \<le> int (nat (num_batches n (int b)) * b)" by simp
  then show ?thesis by (simp only: of_nat_le_iff)
qed

lemma batches_cover:
  assumes "0 < b"
  shows "concat (map (\<lambda>j. map (\<lambda>i. xs ! i) (batch_idx (length xs) b j))
                   [0 ..< nat (num_batches (length xs) (int b))]) = xs"
proof -
  have "concat (map (\<lambda>j. map (\<lambda>i. xs ! i) (batch_idx (length xs) b j))
                  [0 ..< nat (num_batches (length xs) (int b))])
        = map (\<lambda>i. xs ! i) (concat (map (batch_idx (length xs) b)
                                      [0 ..< nat (num_batches (length xs) (int b))]))"
    by (simp add: map_concat comp_def)
  also have "\<dots> = map (\<lambda>i. xs ! i) [0 ..< length xs]"
    using num_batches_covers[OF assms, of "length xs"]
    by (simp add: batch_idx_concat min_def)
  also have "\<dots> = xs" by (rule map_nth)
  finally show ?thesis .
qed

subsection \<open>Lists without an empty string\<close>

lemma encode_all_nonempty:
  assumes "\<forall>s \<in> set ss. s \<noteq> []" "2 \<le> nn"
  shows "encode_all ss nn = ([], Inr (map (\<lambda>s. projr (snd (get_one_hot s nn))) ss))"
  using assms(1)
proof (induction ss)
  case Nil
  then show ?case by simp
next
  case (Cons s ss)
  then have "s \<noteq> []" by simp
  from get_one_hot_padded[OF this assms(2)] obtain vec where
    "get_one_hot s nn = ([], Inr vec)" by blast
  then show ?case using Cons by simp
qed

lemma generator_step:
  assumes "\<forall>s \<in> set smiles_list. s \<noteq> []" "2 \<le> pad_len"
    and "int j < num_batches (length smiles_list) batch_size" "0 < batch_size"
  shows "predict_my_generator smiles_list batch_size pad_len j =
           Some (([], Inr (scaled (map (\<lambda>s. projr (snd (get_one_hot s (int pad_len))))
                     (map (\<lambda>i. smiles_list ! i)
                        (batch_idx (length smiles_list) (nat batch_size) j))))), j + 1)"
proof -
  have "\<forall>s \<in> set (map (\<lambda>i. smiles_list ! i)
                     (batch_idx (length smiles_list) (nat batch_size) j)). s \<noteq> []"
    using assms(1) by (auto dest: batch_idx_in_range)
  then have "encode_all (map (\<lambda>i. smiles_list ! i)
                 (batch_idx (length smiles_list) (nat batch_size) j)) (int pad_len)
     = ([], Inr (map (\<lambda>s. projr (snd (get_one_hot s (int pad_len))))
                  (map (\<lambda>i. smiles_list ! i)
                     (batch_idx (length smiles_list) (nat batch_size) j))))"
    using assms(2) by (intro encode_all_nonempty) auto
  then show ?thesis using assms(3,4)
    by (subst predict_my_generator.simps) simp
qed

lemma feed_steps_pass:
  assumes "\<forall>s \<in> set smiles_list. s \<noteq> []" "2 \<le> pad_len" "0 < batch_size"
  shows "int (j + k) \<le> num_batches (length smiles_list) batch_size \<Longrightarrow>
         feed_steps (predict_my_generator smiles_list batch_size pad_len) k j =
           Some ([], Inr (map (\<lambda>j. scaled (map (\<lambda>s. projr (snd (get_one_hot s (int pad_len))))
                     (map (\<lambda>i. smiles_list ! i)
                        (batch_idx (length smiles_list) (nat batch_size) j))))
                   [j ..< j + k]))"
proof (induction k arbitrary: j)
  case 0
  then show ?case by simp
next
  case (Suc k)
  have lt: "int j < num_batches (length smiles_list) batch_size" using Suc.prems by simp
  have le: "int (Suc j + k) \<le> num_batches (length smiles_list) batch_size"
    using Suc.prems by simp
  have "[j ..< j + Suc k] = j # [Suc j ..< Suc j + k]"
    by (simp add: upt_conv_Cons)
  then show ?case
    using Suc.IH[OF le] generator_step[OF assms(1,2) lt assms(3)] by simp
qed

text \<open>
  For a list without an empty string the extractor returns one vector per molecule, in
  the order of the list, given an embedding model that answers row by row. The feeder
  is driven through the batches of one pass, \<open>\<lceil>n / 128\<rceil>\<close> of them.
\<close>

lemma get_predictions_nonempty:
  assumes "\<forall>s \<in> set gen_mol. s \<noteq> []" "\<forall>b. model b = map emb b"
  shows "get_predictions model gen_mol =
           Some ([], Inr (map (\<lambda>s. emb (map (map (\<lambda>v. v / 35))
                                       (projr (snd (get_one_hot s 350))))) gen_mol))"
proof -
  let ?nb = "nat (num_batches (length gen_mol) 128)"
  let ?enc = "\<lambda>s. projr (snd (get_one_hot s (int 350)))"
  let ?chunk = "\<lambda>j. map (\<lambda>i. gen_mol ! i) (batch_idx (length gen_mol) (nat 128) j)"
  have nn: "0 \<le> num_batches (length gen_mol) 128"
    by (simp add: num_batches_ceiling ceiling_le_iff flip: not_less)
  have fs: "feed_steps (predict_my_generator gen_mol 128 350) ?nb 0 =
        Some ([], Inr (map (\<lambda>j. scaled (map ?enc (?chunk j))) [0 ..< 0 + ?nb]))"
    using nn by (intro feed_steps_pass assms(1)) auto
  have "concat (map model (map (\<lambda>j. scaled (map ?enc (?chunk j))) [0 ..< ?nb]))
      = concat (map (\<lambda>j. map (\<lambda>s. emb (map (map (\<lambda>v. v / 35)) (?enc s))) (?chunk j))
                  [0 ..< ?nb])"
    by (simp add: assms(2) scaled_def comp_def)
  also have "\<dots> = map (\<lambda>s. emb (map (map (\<lambda>v. v / 35)) (?enc s)))
                     (concat (map ?chunk [0 ..< ?nb]))"
    by (simp add: map_concat comp_def)
  also have "concat (map ?chunk [0 ..< ?nb]) = gen_mol"
    using batches_cover[of 128 gen_mol] by simp
  finally show ?thesis using fs
    by (simp add: get_predictions_def predict_generator_def)
qed

text \<open>A list of 150 molecules is fed in two batches, of 128 and of 22 molecules.\<close>

lemma batches_of_150:
  "nat (num_batches 150 128) = 2 \<and> map (\<lambda>j. length (batch_idx 150 128 j)) [0 ..< 2] = [128, 22]"
  by (simp add: num_batches_def batch_idx_def upt_rec)

subsection \<open>A list with an empty string\<close>

text \<open>
  Claim C7 (for every molecule list of length \<open>n\<close> the extractor drives the feeder for
  exactly \<open>\<lceil>n / batch_size\<rceil>\<close> steps and returns exactly \<open>n\<close> embedding vectors in input
  order) fails on a list that holds the empty string: the encoder raises inside the
  first step of the feeder and no vector is returned, whatever the embedding model.
  For lists without an empty string the claim holds, see \<open>get_predictions_nonempty\<close>
  and \<open>batches_of_150\<close>.
\<close>

theorem get_predictions_empty_molecule:
  "get_predictions model [''''] = Some ([not_working ''.''], Inl UnboundLocalError)"
  by (simp add: get_predictions_def predict_generator_def num_batches_def
        predict_my_generator.simps batch_idx_def get_one_hot_empty)

end
